theory Spec2Isabelle
  imports Complex_Main "HOL-Library.Log_Nat"
begin

section \<open>Python values, dictionaries and exceptions\<close>

text \<open>
  The scheduler and the analytics module of the task tracker are Python classes that read a
  MySQL database. Everything the database returns is an input of the model; every exception
  the code can raise on the modelled paths is a value of \<open>py_error\<close>, and a computation that
  may raise returns \<open>py_error + 'a\<close> with \<open>Inl\<close> for the exception.

  Numbers: a Python \<open>int\<close> is an \<open>int\<close>. A Python \<open>float\<close> is the rational number it
  denotes; the division and the multiplication of floats round the exact result to the
  nearest binary64 value (\<open>float_div\<close>, \<open>float_mul\<close> below). A \<open>Decimal\<close> of the MySQL
  connector is the rational it denotes; the 28 digits of the decimal context are not
  modelled. \<open>round(x, n)\<close> on a \<open>Decimal\<close> is the decimal with \<open>n\<close> digits nearest to \<open>x\<close>, ties
  to even (\<open>py_round\<close>); on a float it is the float nearest to that decimal (\<open>float_round\<close>).
\<close>

datatype py_error =
  KeyError | IndexError | ValueError | TypeError | AttributeError | OverflowError | OtherError

datatype pyval = PNone | PInt int | PFloat rat | PDecimal rat | PStr string

type_synonym pydict = "(string \<times> pyval) list"

definition subscript :: "pydict \<Rightarrow> string \<Rightarrow> py_error + pyval" where
  \<comment> \<open>\<open>d[k]\<close>\<close>
  "subscript d k = (case map_of d k of None \<Rightarrow> Inl KeyError | Some v \<Rightarrow> Inr v)"

definition dict_get :: "pydict \<Rightarrow> string \<Rightarrow> pyval \<Rightarrow> pyval" where
  \<comment> \<open>\<open>d.get(k, default)\<close>; \<open>d.get(k)\<close> is \<open>dict_get d k PNone\<close>\<close>
  "dict_get d k dflt = (case map_of d k of None \<Rightarrow> dflt | Some v \<Rightarrow> v)"

definition round_half_even :: "rat \<Rightarrow> int" where
  "round_half_even x =
     (let f = \<lfloor>x\<rfloor>; d = x - of_int f
      in if d < 1 / 2 then f
         else if 1 / 2 < d then f + 1
         else if even f then f else f + 1)"

definition py_round :: "nat \<Rightarrow> rat \<Rightarrow> rat" where
  \<comment> \<open>\<open>round(x, n)\<close>: to \<open>n\<close> decimals, ties to the even neighbour\<close>
  "py_round n x = of_int (round_half_even (x * 10 ^ n)) / 10 ^ n"

subsection \<open>Binary floating point\<close>

text \<open>
  \<open>binade x\<close> is the exponent \<open>e\<close> with \<open>2^e \<le> x < 2^(e+1)\<close> for \<open>x > 0\<close>, and \<open>binary64\<close>
  rounds to 53 significant bits, ties to even. The exponent range of binary64 (overflow,
  subnormal numbers) is not modelled: the floats below are quotients of row counts,
  their products with 100, and parts of minutes.
\<close>

definition binade :: "rat \<Rightarrow> int" where
  "binade x =
     (if 1 \<le> x then int (floorlog 2 (nat \<lfloor>x\<rfloor>)) - 1
      else - int (floorlog 2 (nat (\<lceil>1 / x\<rceil> - 1))))"

definition binary64 :: "rat \<Rightarrow> rat" where
  "binary64 x =
     (if x = 0 then 0
      else (let a = \<bar>x\<bar>; q = 2 powi (binade a - 52)
            in sgn x * (of_int (round_half_even (a / q)) * q)))"

definition float_div :: "int \<Rightarrow> int \<Rightarrow> rat" where
  \<comment> \<open>\<open>a / b\<close> on two ints with \<open>b \<noteq> 0\<close>: the quotient, correctly rounded\<close>
  "float_div a b = binary64 (of_int a / of_int b)"

definition float_mul :: "rat \<Rightarrow> rat \<Rightarrow> rat" where
  \<comment> \<open>\<open>x * y\<close> on two floats\<close>
  "float_mul x y = binary64 (x * y)"

definition float_round :: "nat \<Rightarrow> rat \<Rightarrow> rat" where
  \<comment> \<open>\<open>round(x, n)\<close> on a float: the exact value of \<open>x\<close> is rounded to \<open>n\<close> decimals, and
      the decimal is converted back\<close>
  "float_round n x = binary64 (py_round n x)"

section \<open>The analytics module\<close>

text \<open>
  The methods of \<open>Analytics\<close> run their queries on a cursor inside
  \<open>try: ... except mysql.connector.Error\<close>. What a query gives is an input of the model:
  \<open>MySQLError\<close> when the cursor raises, \<open>Fetched r\<close> when it returns \<open>r\<close>.
\<close>

datatype 'a fetched = MySQLError | Fetched 'a

subsection \<open>suggest\_break\<close>

record break_suggestion =
  break_type :: string
  break_duration :: int
  break_message :: string

definition suggest_break :: "int option fetched \<Rightarrow> break_suggestion option" where
  \<comment> \<open>The argument is what the query \<open>SELECT SUM(duration_minutes) ... last 4 hours\<close> gives:
      \<open>None\<close> for SQL \<open>NULL\<close> (no log in the window), \<open>Some s\<close> for the sum.\<close>
  "suggest_break fetched =
     (case fetched of
        MySQLError \<Rightarrow> None
      | Fetched row \<Rightarrow>
          (let recent_time = (case row of None \<Rightarrow> 0 | Some s \<Rightarrow> if s \<noteq> 0 then s else 0)
           in if recent_time > 240 then
                Some \<lparr>break_type = ''extended_break'', break_duration = 30,
                  break_message = ''You've been working for over 4 hours. Consider taking a 30-minute break.''\<rparr>
              else if recent_time > 120 then
                Some \<lparr>break_type = ''short_break'', break_duration = 15,
                  break_message = ''You've been working for over 2 hours. Consider taking a 15-minute break.''\<rparr>
              else if recent_time > 60 then
                Some \<lparr>break_type = ''micro_break'', break_duration = 5,
                  break_message = ''You've been working for over 1 hour. Consider taking a 5-minute micro-break.''\<rparr>
              else None))"

subsection \<open>calculate\_average\_time and get\_smart\_scheduling\_suggestion\<close>

definition calculate_average_time :: "rat option fetched \<Rightarrow> rat" where
  \<comment> \<open>The argument is the \<open>avg_duration\<close> of the one row of the \<open>AVG\<close> query
      (\<open>None\<close> for SQL \<open>NULL\<close>).\<close>
  "calculate_average_time fetched =
     (case fetched of
        MySQLError \<Rightarrow> 0
      | Fetched avg \<Rightarrow> (case avg of None \<Rightarrow> 0 | Some a \<Rightarrow> if a \<noteq> 0 then a else 0))"

record similar_task =
  st_task_name :: string
  st_category_name :: "string option"
  avg_duration :: rat
  completion_count :: int
  st_project_name :: "string option"

record recommended_break =
  rb_time :: rat
  rb_duration :: int
  rb_type :: string

record suggestions =
  estimated_duration :: rat
  confidence_level :: string
  recommended_breaks :: "recommended_break list"
  similar_tasks :: "similar_task list"

definition total_weight :: "similar_task list \<Rightarrow> int" where
  "total_weight ts = sum_list (map completion_count ts)"

definition weighted_avg :: "similar_task list \<Rightarrow> rat" where
  "weighted_avg ts =
     (if total_weight ts > 0
      then sum_list (map (\<lambda>t. avg_duration t * of_int (completion_count t)) ts)
             / of_int (total_weight ts)
      else 0)"

definition truthy_id :: "int option \<Rightarrow> bool" where
  \<comment> \<open>\<open>if category_id:\<close> for an optional integer\<close>
  "truthy_id c = (case c of None \<Rightarrow> False | Some n \<Rightarrow> n \<noteq> 0)"

record suggestion_queries =
  similar_tasks_query :: "similar_task list fetched"
    \<comment> \<open>the rows of the similar-task query (at most five, by its \<open>LIMIT 5\<close>)\<close>
  category_average_query :: "rat option fetched"
    \<comment> \<open>the \<open>AVG\<close> of \<open>calculate_average_time\<close> filtered by the category\<close>
  overall_average_query :: "rat option fetched"
    \<comment> \<open>the same \<open>AVG\<close> with no filter\<close>

definition add_recommended_breaks :: "suggestions \<Rightarrow> suggestions" where
  "add_recommended_breaks sg =
     (let e = estimated_duration sg
      in if e > 120 then
           sg\<lparr>recommended_breaks :=
               [\<lparr>rb_time = of_int \<lfloor>e / 2\<rfloor>, rb_duration = 15, rb_type = ''mid-session break''\<rparr>,
                \<lparr>rb_time = e, rb_duration = 30, rb_type = ''completion break''\<rparr>]\<rparr>
         else if e > 60 then
           sg\<lparr>recommended_breaks :=
               [\<lparr>rb_time = e, rb_duration = 15, rb_type = ''completion break''\<rparr>]\<rparr>
         else sg)"

definition get_smart_scheduling_suggestion ::
  "suggestion_queries \<Rightarrow> int option \<Rightarrow> suggestions" where
  "get_smart_scheduling_suggestion q category_id =
     (let suggestions0 = \<lparr>estimated_duration = 0, confidence_level = ''low'',
                           recommended_breaks = [], similar_tasks = []\<rparr>
      in case similar_tasks_query q of
           MySQLError \<Rightarrow> suggestions0
         | Fetched sims \<Rightarrow>
             add_recommended_breaks
               (if sims \<noteq> [] then
                  suggestions0\<lparr>estimated_duration := py_round 2 (weighted_avg sims),
                    confidence_level := (if length sims \<ge> 3 then ''high'' else ''medium''),
                    similar_tasks := sims\<rparr>
                else
                  (let general_avg =
                         (if truthy_id category_id
                          then calculate_average_time (category_average_query q)
                          else calculate_average_time (overall_average_query q))
                   in suggestions0\<lparr>estimated_duration := py_round 2 general_avg,
                        confidence_level := ''low''\<rparr>)))"

subsection \<open>get\_productivity\_insights and get\_task\_completion\_rate\<close>

definition two_digits :: "int \<Rightarrow> string" where
  \<comment> \<open>\<open>f"{hour:02d}"\<close> for \<open>0 \<le> hour < 100\<close>; SQL \<open>HOUR\<close> of a timestamp is in \<open>0..23\<close>\<close>
  "two_digits h = [char_of (48 + nat (h div 10)), char_of (48 + nat (h mod 10))]"

record insights =
  most_productive_time :: "string option"
  average_session_length :: rat
  completion_rate :: rat
  improvement_suggestions :: "string list"
  top_categories :: "pydict list"
  project_breakdown :: "pydict list"

record insights_queries =
  time_analysis_query :: "int option fetched"
    \<comment> \<open>\<open>fetchone\<close>: the \<open>hour\<close> of the first row, \<open>None\<close> when there is no row\<close>
  avg_session_query :: "rat option option fetched"
    \<comment> \<open>\<open>fetchone\<close>: \<open>None\<close> for no row, \<open>Some None\<close> for a row whose \<open>avg_session\<close> is \<open>NULL\<close>\<close>
  completion_query :: "(int \<times> int) option fetched"
    \<comment> \<open>\<open>fetchone\<close>: the row \<open>(completed, total)\<close> of the two \<open>COUNT\<close>s\<close>
  top_categories_query :: "pydict list fetched"
  project_breakdown_query :: "pydict list fetched"

definition completion_percentage :: "int \<Rightarrow> int \<Rightarrow> rat" where
  \<comment> \<open>\<open>(result['completed'] / result['total']) * 100\<close> on two ints, used where
      \<open>total > 0\<close>: a float division, then a float multiplication\<close>
  "completion_percentage completed total_count = float_mul (float_div completed total_count) 100"

definition improvement :: "insights \<Rightarrow> string list" where
  "improvement ins =
     (if average_session_length ins > 120
      then [''Consider breaking longer sessions into smaller chunks for better focus.''] else [])
     @ (if completion_rate ins < 70
        then [''Try setting more realistic deadlines to improve completion rates.''] else [])
     @ (if most_productive_time ins = None
        then [''Track your productivity patterns to identify your most productive hours.'']
        else [])"

definition get_productivity_insights :: "insights_queries \<Rightarrow> insights" where
  \<comment> \<open>The five queries run in this order; a \<open>mysql.connector.Error\<close> at one of them returns
      the dictionary as filled so far.\<close>
  "get_productivity_insights q =
     (let ins0 = \<lparr>most_productive_time = None, average_session_length = 0, completion_rate = 0,
                   improvement_suggestions = [], top_categories = [], project_breakdown = []\<rparr>
      in case time_analysis_query q of
           MySQLError \<Rightarrow> ins0
         | Fetched r1 \<Rightarrow>
            (let ins1 = (case r1 of None \<Rightarrow> ins0
                         | Some h \<Rightarrow> ins0\<lparr>most_productive_time := Some (two_digits h @ '':00'')\<rparr>)
             in case avg_session_query q of
                  MySQLError \<Rightarrow> ins1
                | Fetched r2 \<Rightarrow>
                   (let ins2 = (case r2 of
                                  Some (Some a) \<Rightarrow>
                                    (if a \<noteq> 0 then ins1\<lparr>average_session_length := py_round 1 a\<rparr>
                                     else ins1)
                                | _ \<Rightarrow> ins1)
                    in case completion_query q of
                         MySQLError \<Rightarrow> ins2
                       | Fetched r3 \<Rightarrow>
                          (let ins3 = (case r3 of
                                         Some (completed, total_count) \<Rightarrow>
                                           (if total_count > 0
                                            then ins2\<lparr>completion_rate :=
                                                   float_round 1 (completion_percentage completed total_count)\<rparr>
                                            else ins2)
                                       | None \<Rightarrow> ins2)
                           in case top_categories_query q of
                                MySQLError \<Rightarrow> ins3
                              | Fetched r4 \<Rightarrow>
                                 (let ins4 = ins3\<lparr>top_categories := r4\<rparr>
                                  in case project_breakdown_query q of
                                       MySQLError \<Rightarrow> ins4
                                     | Fetched r5 \<Rightarrow>
                                        (let ins5 = ins4\<lparr>project_breakdown := r5\<rparr>
                                         in ins5\<lparr>improvement_suggestions := improvement ins5\<rparr>))))))"

definition get_task_completion_rate :: "(int \<times> int) option fetched \<Rightarrow> rat" where
  \<comment> \<open>Here the handler is \<open>except Exception\<close>; the cursor is the only source of one.\<close>
  "get_task_completion_rate fetched =
     (case fetched of
        MySQLError \<Rightarrow> 0
      | Fetched r \<Rightarrow>
          (case r of
             Some (completed, total_count) \<Rightarrow>
               if total_count > 0 then min 100 (completion_percentage completed total_count) else 0
           | None \<Rightarrow> 0))"

section \<open>The intelligent scheduler\<close>

subsection \<open>predict\_task\_duration\<close>

text \<open>
  \<open>DatabaseConnector.execute_query\<close> catches \<open>mysql.connector.Error\<close> itself and returns
  \<open>None\<close>; otherwise it returns the rows. Its outcome is \<open>Inr None\<close>, \<open>Inr (Some rows)\<close>, or
  \<open>Inl e\<close> for any other exception that escapes it. A row of the category query is its
  \<open>category_name\<close> (\<open>None\<close> for SQL \<open>NULL\<close>), a row of the average query its \<open>avg_duration\<close>.
\<close>

record scheduler_db =
  execute_category_query :: "pyval \<Rightarrow> py_error + string option list option"
  execute_average_query :: "pyval \<Rightarrow> py_error + rat option list option"

fun truthy :: "pyval \<Rightarrow> bool" where
  "truthy PNone = False"
| "truthy (PInt n) = (n \<noteq> 0)"
| "truthy (PFloat r) = (r \<noteq> 0)"
| "truthy (PDecimal r) = (r \<noteq> 0)"
| "truthy (PStr s) = (s \<noteq> [])"

definition lower_char :: "char \<Rightarrow> char" where
  "lower_char c =
     (let n = (of_char c :: nat) in if 65 \<le> n \<and> n \<le> 90 then char_of (n + 32) else c)"

definition lower :: "string \<Rightarrow> string" where
  \<comment> \<open>\<open>str.lower()\<close> on ASCII text\<close>
  "lower s = map lower_char s"

definition default_durations :: "(string \<times> int) list" where
  "default_durations =
     [(''coding'', 120), (''design'', 90), (''planning'', 60), (''testing'', 45),
      (''documentation'', 60), (''meeting'', 30), (''other'', 60)]"

definition first_average :: "rat option list option \<Rightarrow> rat option" where
  \<comment> \<open>\<open>result and result[0]['avg_duration']\<close>: the average when it is there and not zero\<close>
  "first_average result =
     (case result of
        Some (Some a # _) \<Rightarrow> if a \<noteq> 0 then Some a else None
      | _ \<Rightarrow> None)"

definition lookup_category_name :: "scheduler_db \<Rightarrow> pyval \<Rightarrow> py_error + string option" where
  \<comment> \<open>the lines under \<open># Get category name\<close>; \<open>None\<close> is a \<open>NULL\<close> name\<close>
  "lookup_category_name db category_id =
     (if truthy category_id
      then (case execute_category_query db category_id of
              Inl e \<Rightarrow> Inl e
            | Inr cat_result \<Rightarrow>
                (case cat_result of
                   Some (row # _) \<Rightarrow> Inr row
                 | _ \<Rightarrow> Inr (Some ''other'')))
      else Inr (Some ''other''))"

definition predict_try :: "scheduler_db \<Rightarrow> pyval \<Rightarrow> py_error + pydict" where
  \<comment> \<open>the \<open>try\<close> block of \<open>predict_task_duration\<close>; \<open>category_name.lower()\<close> raises
      \<open>AttributeError\<close> on \<open>None\<close>. The average is a \<open>Decimal\<close> and stays one through
      \<open>round(duration / 60, 1)\<close>; a default is an int, and the division makes a float.\<close>
  "predict_try db category_id =
     (case lookup_category_name db category_id of
        Inl e \<Rightarrow> Inl e
      | Inr category_name \<Rightarrow>
          (case execute_average_query db category_id of
             Inl e \<Rightarrow> Inl e
           | Inr result \<Rightarrow>
               (case (case first_average result of
                        Some a \<Rightarrow> Inr (PDecimal (py_round 1 (a / 60)))
                      | None \<Rightarrow>
                          (case category_name of
                             None \<Rightarrow> Inl AttributeError
                           | Some n \<Rightarrow>
                               Inr (PFloat (float_round 1
                                 (float_div (case map_of default_durations (lower n) of
                                               None \<Rightarrow> 60 | Some d \<Rightarrow> d) 60))))) of
                  Inl e \<Rightarrow> Inl e
                | Inr hours \<Rightarrow>
                    Inr [(''duration'', hours),
                         (''confidence'', PFloat 70),
                         (''method'', PStr ''Historical Average'')])))"

definition predict_task_duration :: "scheduler_db \<Rightarrow> pyval \<Rightarrow> pyval \<Rightarrow> pyval \<Rightarrow> pydict" where
  "predict_task_duration db task_name description category_id =
     (case predict_try db category_id of
        Inr prediction \<Rightarrow> prediction
      | Inl e \<Rightarrow> [(''duration'', PFloat 1), (''confidence'', PFloat 50),
                  (''method'', PStr ''Default Estimate'')])"

subsection \<open>Dates and durations\<close>

text \<open>
  A naive \<open>datetime\<close> is the number of microseconds since 0001-01-01 00:00; the last one is
  9999-12-31 23:59:59.999999, and an addition that leaves the range raises
  \<open>OverflowError\<close>. A \<open>timedelta\<close> is a number of microseconds, of at most 999999999 days
  in absolute value. \<open>timedelta(minutes=x)\<close> takes an int or a float and raises \<open>TypeError\<close> on
  a \<open>Decimal\<close>; on a float, the whole minutes are exact and the rest is multiplied in
  floating point, then the sum is rounded to the microsecond, ties to even.
\<close>

type_synonym datetime = int

definition us_minute :: int where "us_minute = 60000000"
definition us_hour :: int where "us_hour = 3600000000"
definition us_day :: int where "us_day = 86400000000"

definition datetime_max :: datetime where
  "datetime_max = 3652059 * us_day - 1"

definition add_timedelta :: "datetime \<Rightarrow> int \<Rightarrow> py_error + datetime" where
  \<comment> \<open>\<open>t + delta\<close>\<close>
  "add_timedelta t delta =
     (if 0 \<le> t + delta \<and> t + delta \<le> datetime_max then Inr (t + delta) else Inl OverflowError)"

definition timedelta_us :: "int \<Rightarrow> py_error + int" where
  "timedelta_us n =
     (if - 999999999 * us_day \<le> n \<and> n < 1000000000 * us_day then Inr n else Inl OverflowError)"

definition hour_of :: "datetime \<Rightarrow> int" where
  "hour_of t = (t div us_hour) mod 24"

definition replace_hour :: "datetime \<Rightarrow> int \<Rightarrow> py_error + datetime" where
  \<comment> \<open>\<open>t.replace(hour=h, minute=0, second=0, microsecond=0)\<close>\<close>
  "replace_hour t h =
     (if 0 \<le> h \<and> h \<le> 23 then Inr ((t div us_day) * us_day + h * us_hour) else Inl ValueError)"

fun number_of :: "pyval \<Rightarrow> rat option" where
  "number_of (PInt n) = Some (of_int n)"
| "number_of (PFloat r) = Some r"
| "number_of (PDecimal r) = Some r"
| "number_of PNone = None"
| "number_of (PStr s) = None"

definition truncate :: "rat \<Rightarrow> int" where
  \<comment> \<open>the whole part, towards zero\<close>
  "truncate r = (if 0 \<le> r then \<lfloor>r\<rfloor> else \<lceil>r\<rceil>)"

fun timedelta_minutes :: "pyval \<Rightarrow> py_error + int" where
  "timedelta_minutes (PInt n) = timedelta_us (n * us_minute)"
| "timedelta_minutes (PFloat r) =
     timedelta_us
       (round_half_even
          (of_int (truncate r * us_minute)
           + float_mul (r - of_int (truncate r)) (of_int us_minute)))"
| "timedelta_minutes (PDecimal r) = Inl TypeError"
| "timedelta_minutes PNone = Inl TypeError"
| "timedelta_minutes (PStr s) = Inl TypeError"

subsection \<open>create\_smart\_schedule\<close>

record scheduled_task =
  task_name :: pyval
  start_time :: datetime
  duration :: pyval
  confidence :: pyval
  category :: pyval
  project :: pyval

definition calculate_break_duration :: "pyval \<Rightarrow> py_error + int" where
  "calculate_break_duration task_duration =
     (case number_of task_duration of
        None \<Rightarrow> Inl TypeError
      | Some x \<Rightarrow>
          Inr (if x \<le> 30 then 5 else if x \<le> 60 then 10 else if x \<le> 120 then 15 else 20))"

definition task_end :: "scheduled_task \<Rightarrow> py_error + datetime" where
  \<comment> \<open>\<open>task['start_time'] + timedelta(minutes=task['duration'])\<close>\<close>
  "task_end task =
     (case timedelta_minutes (duration task) of
        Inl e \<Rightarrow> Inl e
      | Inr d \<Rightarrow> add_timedelta (start_time task) d)"

fun resolve_conflicts :: "datetime \<Rightarrow> scheduled_task list \<Rightarrow> py_error + datetime" where
  \<comment> \<open>the loop \<open>for task in existing_tasks\<close> of \<open>_find_optimal_start_time\<close>\<close>
  "resolve_conflicts st [] = Inr st"
| "resolve_conflicts st (task # rest) =
     (case task_end task of
        Inl e \<Rightarrow> Inl e
      | Inr e \<Rightarrow>
          (if st < e
           then (case add_timedelta e (15 * us_minute) of
                   Inl e' \<Rightarrow> Inl e'
                 | Inr st' \<Rightarrow> resolve_conflicts st' rest)
           else resolve_conflicts st rest))"

definition to_productive_hour :: "datetime \<Rightarrow> int list \<Rightarrow> py_error + datetime" where
  \<comment> \<open>the first part of \<open>_find_optimal_start_time\<close>: \<open>for hour in productive_hours\<close>
      with its \<open>else\<close> clause\<close>
  "to_productive_hour current_time productive_hours =
     (if hour_of current_time \<notin> set productive_hours then
        (case find (\<lambda>h. h > hour_of current_time) productive_hours of
           Some h \<Rightarrow> replace_hour current_time h
         | None \<Rightarrow>
             (case add_timedelta current_time us_day of
                Inl e \<Rightarrow> Inl e
              | Inr tomorrow \<Rightarrow>
                  (case productive_hours of
                     [] \<Rightarrow> Inl IndexError
                   | h0 # _ \<Rightarrow> replace_hour tomorrow h0)))
      else Inr current_time)"

definition find_optimal_start_time ::
  "datetime \<Rightarrow> pyval \<Rightarrow> int list \<Rightarrow> scheduled_task list \<Rightarrow> py_error + datetime" where
  "find_optimal_start_time current_time dur productive_hours existing_tasks =
     (case to_productive_hour current_time productive_hours of
        Inl e \<Rightarrow> Inl e
      | Inr st \<Rightarrow> resolve_conflicts st existing_tasks)"

text \<open>
  The loop of \<open>create_smart_schedule\<close>. The duration estimator is the method
  \<open>self.predict_task_duration\<close>; the loop takes it, and the productive hours, as arguments.
  \<open>i\<close> is the index of \<open>enumerate\<close>.
\<close>

fun schedule_loop ::
  "(pyval \<Rightarrow> pyval \<Rightarrow> pyval \<Rightarrow> pydict) \<Rightarrow> int list \<Rightarrow> nat \<Rightarrow> datetime
     \<Rightarrow> scheduled_task list \<Rightarrow> pydict list \<Rightarrow> py_error + scheduled_task list" where
  "schedule_loop predict productive_hours i current_time scheduled_tasks [] = Inr scheduled_tasks"
| "schedule_loop predict productive_hours i current_time scheduled_tasks (task # rest) =
     (case subscript task ''name'' of
        Inl e \<Rightarrow> Inl e
      | Inr name \<Rightarrow>
     (let prediction = predict name (dict_get task ''description'' PNone)
                         (dict_get task ''category_id'' PNone)
      in case subscript prediction ''predicted_duration'' of
           Inl e \<Rightarrow> Inl e
         | Inr dur \<Rightarrow>
     (case find_optimal_start_time current_time dur productive_hours scheduled_tasks of
        Inl e \<Rightarrow> Inl e
      | Inr st0 \<Rightarrow>
     (case (if i > 0
            then (case calculate_break_duration dur of
                    Inl e \<Rightarrow> Inl e
                  | Inr break_minutes \<Rightarrow> add_timedelta st0 (break_minutes * us_minute))
            else Inr st0) of
        Inl e \<Rightarrow> Inl e
      | Inr st \<Rightarrow>
     (case subscript prediction ''confidence'' of
        Inl e \<Rightarrow> Inl e
      | Inr conf \<Rightarrow>
     (case timedelta_minutes dur of
        Inl e \<Rightarrow> Inl e
      | Inr d \<Rightarrow>
     (case add_timedelta st d of
        Inl e \<Rightarrow> Inl e
      | Inr next_time \<Rightarrow>
          schedule_loop predict productive_hours (Suc i) next_time
            (scheduled_tasks @
               [\<lparr>task_name = name, start_time = st, duration = dur, confidence = conf,
                 category = dict_get task ''category_name'' (PStr ''Unknown''),
                 project = dict_get task ''project_name'' (PStr ''No Project'')\<rparr>])
            rest)))))))"

text \<open>
  The scheduler object: \<open>self.analytics\<close> is \<open>None\<close> when the connection failed in
  \<open>__init__\<close>, otherwise an \<open>Analytics\<close> whose queries give \<open>insights_queries\<close>. The dictionary
  that \<open>get_productivity_insights\<close> returns has the six keys of \<open>insights\<close> and no other, so
  \<open>insights.get('most_productive_hours', [9, 10, 11, 14, 15, 16])\<close> is the default list.
\<close>

record scheduler =
  analytics :: "insights_queries option"
  db_connector :: scheduler_db

definition default_productive_hours :: "int list" where
  "default_productive_hours = [9, 10, 11, 14, 15, 16]"

definition create_smart_schedule_try ::
  "scheduler \<Rightarrow> datetime \<Rightarrow> pydict list \<Rightarrow> py_error + scheduled_task list" where
  \<comment> \<open>the \<open>try\<close> block; \<open>now\<close> is \<open>datetime.now()\<close>\<close>
  "create_smart_schedule_try self now tasks =
     (case analytics self of
        None \<Rightarrow> Inl AttributeError
      | Some a \<Rightarrow>
          (let ins = get_productivity_insights a;
               productive_hours = default_productive_hours
           in schedule_loop (predict_task_duration (db_connector self)) productive_hours
                0 now [] tasks))"

definition create_smart_schedule :: "scheduler \<Rightarrow> datetime \<Rightarrow> pydict list \<Rightarrow> scheduled_task list" where
  "create_smart_schedule self now tasks =
     (case create_smart_schedule_try self now tasks of
        Inr scheduled_tasks \<Rightarrow> scheduled_tasks
      | Inl e \<Rightarrow> [])"

subsection \<open>Properties of a schedule\<close>

text \<open>
  What the specification asks of a returned schedule, as functions on the list.
  \<open>no_overlap\<close>: no two intervals \<open>[start, start + duration)\<close> meet. \<open>gaps_after_breaks\<close>:
  every entry after the first starts later than its predecessor ends, by at least the
  break of the predecessor's duration. \<open>breaks_from_previous\<close>: every entry after the first
  starts at the time \<open>_find_optimal_start_time\<close> finds from the predecessor's end, plus the
  break of the predecessor's duration.
\<close>

definition intervals_disjoint :: "scheduled_task \<Rightarrow> scheduled_task \<Rightarrow> bool" where
  "intervals_disjoint a b =
     (case task_end a of
        Inl e \<Rightarrow> False
      | Inr ea \<Rightarrow>
          (case task_end b of
             Inl e \<Rightarrow> False
           | Inr eb \<Rightarrow> \<not> (max (start_time a) (start_time b) < min ea eb)))"

fun no_overlap :: "scheduled_task list \<Rightarrow> bool" where
  "no_overlap [] = True"
| "no_overlap (a # rest) = (list_all (intervals_disjoint a) rest \<and> no_overlap rest)"

definition gap_after :: "scheduled_task \<Rightarrow> scheduled_task \<Rightarrow> bool" where
  "gap_after a b =
     (case task_end a of
        Inl e \<Rightarrow> False
      | Inr ea \<Rightarrow>
          (case calculate_break_duration (duration a) of
             Inl e \<Rightarrow> False
           | Inr break_minutes \<Rightarrow>
               ea < start_time b \<and> ea + break_minutes * us_minute \<le> start_time b))"

fun gaps_after_breaks :: "scheduled_task list \<Rightarrow> bool" where
  "gaps_after_breaks (a # b # rest) = (gap_after a b \<and> gaps_after_breaks (b # rest))"
| "gaps_after_breaks _ = True"

definition break_before ::
  "int list \<Rightarrow> scheduled_task list \<Rightarrow> scheduled_task \<Rightarrow> scheduled_task \<Rightarrow> bool" where
  "break_before productive_hours earlier a b =
     (case task_end a of
        Inl e \<Rightarrow> False
      | Inr ea \<Rightarrow>
          (case find_optimal_start_time ea (duration b) productive_hours earlier of
             Inl e \<Rightarrow> False
           | Inr st0 \<Rightarrow>
               (case calculate_break_duration (duration a) of
                  Inl e \<Rightarrow> False
                | Inr break_minutes \<Rightarrow>
                    add_timedelta st0 (break_minutes * us_minute) = Inr (start_time b))))"

fun breaks_from_previous ::
  "int list \<Rightarrow> scheduled_task list \<Rightarrow> scheduled_task list \<Rightarrow> bool" where
  "breaks_from_previous productive_hours earlier (a # b # rest) =
     (break_before productive_hours (earlier @ [a]) a b
      \<and> breaks_from_previous productive_hours (earlier @ [a]) (b # rest))"
| "breaks_from_previous productive_hours earlier _ = True"

subsection \<open>Inputs used in the examples\<close>

text \<open>
  Task dictionaries with only a name, a small database, a user history with given task
  counts, a row of the similar-task query, and literal schedule entries.
\<close>

abbreviation named_task :: "string \<Rightarrow> pydict" where
  "named_task s \<equiv> [(''name'', PStr s)]"

abbreviation testing_db :: scheduler_db where
  "testing_db \<equiv>
     \<lparr>execute_category_query = (\<lambda>c. if c = PInt 3 then Inr (Some [Some ''testing'']) else Inr (Some [])),
      execute_average_query = (\<lambda>c. if c = PInt 1 then Inl OtherError else Inr (Some [None]))\<rparr>"

abbreviation history :: "int \<Rightarrow> int \<Rightarrow> insights_queries" where
  "history c t \<equiv>
     \<lparr>time_analysis_query = Fetched None, avg_session_query = Fetched (Some None),
      completion_query = Fetched (Some (c, t)),
      top_categories_query = Fetched [], project_breakdown_query = Fetched []\<rparr>"

abbreviation similar :: "rat \<Rightarrow> int \<Rightarrow> similar_task" where
  "similar a n \<equiv>
     \<lparr>st_task_name = ''Write tests'', st_category_name = Some ''testing'', avg_duration = a,
      completion_count = n, st_project_name = None\<rparr>"

abbreviation found :: "similar_task list \<Rightarrow> suggestion_queries" where
  "found sims \<equiv>
     \<lparr>similar_tasks_query = Fetched sims, category_average_query = Fetched None,
      overall_average_query = Fetched None\<rparr>"

abbreviation entry :: "int \<Rightarrow> int \<Rightarrow> scheduled_task" where
  "entry start minutes \<equiv>
     \<lparr>task_name = PStr ''task'', start_time = start, duration = PInt minutes,
      confidence = PFloat 70, category = PStr ''Unknown'', project = PStr ''No Project''\<rparr>"

section \<open>Auxiliary facts\<close>

subsection \<open>Rounding\<close>

lemma round_half_even_range:
  assumes "of_int a \<le> x" "x \<le> of_int b"
  shows "a \<le> round_half_even x \<and> round_half_even x \<le> b"
proof (cases "\<lfloor>x\<rfloor> = b")
  case True
  then have "of_int b \<le> x" by (metis of_int_floor_le)
  with assms(2) have "x = of_int b" by simp
  moreover have "a \<le> b" using assms by (metis of_int_le_iff order_trans)
  ultimately show ?thesis by (simp add: round_half_even_def)
next
  case False
  have lo: "a \<le> \<lfloor>x\<rfloor>" using assms(1) by (simp add: le_floor_iff)
  have "\<lfloor>x\<rfloor> \<le> b" using assms(2) by (simp add: floor_le_iff)
  with False have hi: "\<lfloor>x\<rfloor> + 1 \<le> b" by simp
  from lo hi show ?thesis by (auto simp: round_half_even_def Let_def)
qed

lemma round_half_even_close: "\<bar>of_int (round_half_even x) - x\<bar> \<le> 1 / 2"
  unfolding round_half_even_def Let_def
  by (auto simp: abs_if) linarith+

lemma py_round_close: "\<bar>py_round n x - x\<bar> \<le> 1 / (2 * 10 ^ n)"
proof -
  have p: "(0::rat) < 10 ^ n" by simp
  have "\<bar>of_int (round_half_even (x * 10 ^ n)) - x * 10 ^ n\<bar> \<le> 1 / 2"
    by (rule round_half_even_close)
  then have "\<bar>of_int (round_half_even (x * 10 ^ n)) - x * 10 ^ n\<bar> / 10 ^ n \<le> (1 / 2) / 10 ^ n"
    by (rule divide_right_mono) simp
  moreover have "\<bar>of_int (round_half_even (x * 10 ^ n)) - x * 10 ^ n\<bar> / 10 ^ n
                   = \<bar>py_round n x - x\<bar>"
  proof -
    have "\<bar>of_int (round_half_even (x * 10 ^ n)) - x * 10 ^ n\<bar> / 10 ^ n
            = \<bar>(of_int (round_half_even (x * 10 ^ n)) - x * 10 ^ n) / 10 ^ n\<bar>"
      using p by simp
    also have "(of_int (round_half_even (x * 10 ^ n)) - x * 10 ^ n) / 10 ^ n = py_round n x - x"
      using p by (simp add: py_round_def diff_divide_distrib)
    finally show ?thesis .
  qed
  ultimately show ?thesis by simp
qed

lemma py_round_1_close: "\<bar>py_round 1 x - x\<bar> \<le> 1 / 20"
  using py_round_close [of 1 x] by simp

lemma py_round_1_range:
  assumes "0 \<le> x" "x \<le> 100"
  shows "0 \<le> py_round 1 x \<and> py_round 1 x \<le> 100"
proof -
  have "0 \<le> round_half_even (x * 10) \<and> round_half_even (x * 10) \<le> 1000"
    using assms by (intro round_half_even_range) auto
  then show ?thesis by (simp add: py_round_def field_simps)
qed

subsection \<open>Binary floating point\<close>

lemma binade_lower: 
  assumes "0 < x"
  shows "2 powi binade x \<le> x"
proof (cases "1 \<le> x")
  case True
  define n where "n = nat \<lfloor>x\<rfloor>"
  have n: "0 < n" using True by (simp add: n_def)
  have e: "binade x = int (floorlog 2 n - 1)"
    using True n floorlog_bounds [of n 2] by (auto simp: binade_def n_def floorlog_def)
  from floorlog_bounds [OF n, of 2] have "2 ^ (floorlog 2 n - 1) \<le> n" by simp
  then have "(2::rat) ^ (floorlog 2 n - 1) \<le> of_nat n"
    by (metis of_nat_le_iff of_nat_numeral of_nat_power)
  also have "(of_nat n :: rat) \<le> x" using True by (simp add: n_def)
  finally show ?thesis by (simp add: e power_int_def)
next
  case False
  define m where "m = nat (\<lceil>1 / x\<rceil> - 1)"
  have x1: "1 < 1 / x" using False assms by simp
  have "1 / x \<le> of_int \<lceil>1 / x\<rceil>" by simp
  have e: "binade x = - int (floorlog 2 m)" using False by (simp add: binade_def m_def)
  have c2: "2 \<le> \<lceil>1 / x\<rceil>" using x1 by (simp add: le_ceiling_iff)
  then have m: "0 < m" by (simp add: m_def)
  from floorlog_bounds [OF m, of 2] have "m < 2 ^ floorlog 2 m" by simp
  then have "Suc m \<le> 2 ^ floorlog 2 m" by simp
  then have "(of_nat (Suc m) :: rat) \<le> 2 ^ floorlog 2 m"
    by (metis of_nat_le_iff of_nat_numeral of_nat_power)
  moreover have "of_nat (Suc m) = (of_int \<lceil>1 / x\<rceil> :: rat)"
  proof -
    have "int (Suc m) = \<lceil>1 / x\<rceil>" using c2 unfolding m_def by linarith
    then show ?thesis by (metis of_int_of_nat_eq)
  qed
  ultimately have "1 / x \<le> 2 ^ floorlog 2 m" using \<open>1 / x \<le> of_int \<lceil>1 / x\<rceil>\<close> by linarith
  then have "1 / 2 ^ floorlog 2 m \<le> x" using assms
    by (simp add: field_simps)
  then show ?thesis by (simp add: e power_int_minus field_simps)
qed

lemma binade_upper:
  assumes "0 < x"
  shows "x < 2 powi (binade x + 1)"
proof (cases "1 \<le> x")
  case True
  define n where "n = nat \<lfloor>x\<rfloor>"
  have n: "0 < n" using True by (simp add: n_def)
  have fl: "0 < floorlog 2 n" using n by (simp add: floorlog_def)
  have e: "binade x + 1 = int (floorlog 2 n)"
    using True by (simp add: binade_def n_def)
  from floorlog_bounds [OF n, of 2] have "n < 2 ^ floorlog 2 n" by simp
  then have "Suc n \<le> 2 ^ floorlog 2 n" by simp
  then have "(of_nat (Suc n) :: rat) \<le> 2 ^ floorlog 2 n"
    by (metis of_nat_le_iff of_nat_numeral of_nat_power)
  moreover have "x < of_nat (Suc n)"
  proof -
    have "x < of_int (\<lfloor>x\<rfloor> + 1)" by linarith
    moreover have "int (Suc n) = \<lfloor>x\<rfloor> + 1" using True by (simp add: n_def)
    ultimately show ?thesis by (metis of_int_of_nat_eq)
  qed
  ultimately have "x < 2 ^ floorlog 2 n" by linarith
  then show ?thesis unfolding e by simp
next
  case False
  define m where "m = nat (\<lceil>1 / x\<rceil> - 1)"
  define k where "k = floorlog 2 m"
  have x1: "1 < 1 / x" using False assms by simp
  have c2: "2 \<le> \<lceil>1 / x\<rceil>" using x1 by (simp add: le_ceiling_iff)
  then have m: "0 < m" by (simp add: m_def)
  have k: "0 < k" using m floorlog_bounds [OF m, of 2] unfolding k_def
    by (cases "floorlog 2 m") auto
  have e: "binade x + 1 = - int (k - 1)"
    using False k by (simp add: binade_def m_def k_def)
  from floorlog_bounds [OF m, of 2] have "2 ^ (k - 1) \<le> m" by (simp add: k_def)
  then have "(2::rat) ^ (k - 1) \<le> of_nat m"
    by (metis of_nat_le_iff of_nat_numeral of_nat_power)
  moreover have "(of_nat m :: rat) < 1 / x"
  proof -
    have "int m = \<lceil>1 / x\<rceil> - 1" using c2 unfolding m_def by linarith
    then have "(of_nat m :: rat) = of_int (\<lceil>1 / x\<rceil> - 1)" by (metis of_int_of_nat_eq)
    also have "\<dots> < 1 / x" by linarith
    finally show ?thesis .
  qed
  ultimately have "(2::rat) ^ (k - 1) < 1 / x" by linarith
  then have "x < 1 / 2 ^ (k - 1)" using assms by (simp add: field_simps)
  then show ?thesis unfolding e by (simp add: power_int_minus field_simps)
qed

lemma binary64_examples:
  "binary64 (1 / 10) = 3602879701896397 / 36028797018963968"
  "binary64 (4 / 5) = 3602879701896397 / 4503599627370496"
  "binary64 (333 / 10) = 2343279181116211 / 70368744177664"
  "binary64 100 = 100" "binary64 (- (3 / 4)) = - (3 / 4)"
  "float_mul (float_div 23 80) 100 = 8092405580431359 / 281474976710656"
  by code_simp+

lemma binary64_nonneg: "0 \<le> x \<Longrightarrow> 0 \<le> binary64 x"
proof -
  assume x: "0 \<le> x"
  have "0 \<le> round_half_even (\<bar>x\<bar> / 2 powi (binade \<bar>x\<bar> - 52))"
    using round_half_even_range [of 0 "\<bar>x\<bar> / 2 powi (binade \<bar>x\<bar> - 52)" "\<lceil>\<bar>x\<bar> / 2 powi (binade \<bar>x\<bar> - 52)\<rceil>"]
    by simp
  then show ?thesis using x by (simp add: binary64_def Let_def sgn_if)
qed

lemma binary64_le_int:
  assumes "0 < x" "x \<le> of_int n" "n \<le> 2 ^ 52"
  shows "binary64 x \<le> of_int n"
proof -
  define e where "e = binade x"
  have "(2::rat) powi e \<le> x" unfolding e_def using assms(1) by (rule binade_lower)
  also have "x \<le> of_int n" by fact
  also have "(of_int n :: rat) \<le> 2 powi 52"
  proof -
    have "(of_int n :: rat) \<le> of_int (2 ^ 52)" using assms(3) by (simp only: of_int_le_iff)
    then show ?thesis by simp
  qed
  finally have "e \<le> 52" by (rule power_int_le_imp_le_exp [rotated]) simp_all
  define k where "k = nat (52 - e)"
  have q: "(2::rat) powi (e - 52) = 1 / 2 ^ k"
    using \<open>e \<le> 52\<close> by (simp add: k_def power_int_def field_simps)
  have "x / (1 / 2 ^ k) \<le> of_int (n * 2 ^ k)" using assms(2) by (simp add: field_simps)
  moreover have "of_int 0 \<le> x / (1 / (2::rat) ^ k)" using assms(1) by simp
  ultimately have "round_half_even (x / (1 / 2 ^ k)) \<le> n * 2 ^ k"
    using round_half_even_range by blast
  then have "(of_int (round_half_even (x / (1 / 2 ^ k))) :: rat) \<le> of_int (n * 2 ^ k)"
    by (simp only: of_int_le_iff)
  then have "of_int (round_half_even (x / (1 / 2 ^ k))) * (1 / 2 ^ k) \<le> (of_int n :: rat)"
    by (simp add: field_simps)
  then show ?thesis using assms(1) by (simp add: binary64_def Let_def e_def [symmetric] q)
qed


lemma binary64_close:
  assumes "0 < x"
  shows "\<bar>binary64 x - x\<bar> \<le> x / 2 ^ 53"
proof -
  define q :: rat where "q = 2 powi (binade x - 52)"
  have q: "0 < q" by (simp add: q_def)
  have "\<bar>of_int (round_half_even (x / q)) - x / q\<bar> \<le> 1 / 2" by (rule round_half_even_close)
  then have "\<bar>of_int (round_half_even (x / q)) - x / q\<bar> * q \<le> (1 / 2) * q"
    using q by (intro mult_right_mono) auto
  moreover have "\<bar>of_int (round_half_even (x / q)) - x / q\<bar> * q
                 = \<bar>of_int (round_half_even (x / q)) * q - x\<bar>"
  proof -
    have "\<bar>of_int (round_half_even (x / q)) - x / q\<bar> * q
            = \<bar>(of_int (round_half_even (x / q)) - x / q) * q\<bar>"
      using q by (simp add: abs_mult)
    also have "(of_int (round_half_even (x / q)) - x / q) * q
                 = of_int (round_half_even (x / q)) * q - x"
      using q by (simp add: algebra_simps)
    finally show ?thesis .
  qed
  moreover have "(1 / 2) * q = 2 powi binade x / 2 ^ 53"
  proof -
    have "q = 2 powi binade x * 2 powi (- 52)"
      unfolding q_def by (simp add: power_int_diff power_int_minus field_simps)
    then show ?thesis by (simp add: power_int_minus field_simps)
  qed
  moreover have "2 powi binade x / 2 ^ 53 \<le> x / 2 ^ 53"
    using binade_lower [OF assms] by (simp add: divide_right_mono)
  ultimately have "\<bar>of_int (round_half_even (x / q)) * q - x\<bar> \<le> x / 2 ^ 53" by linarith
  then show ?thesis using assms by (simp add: binary64_def Let_def q_def)
qed

lemma binary64_pos: "0 < x \<Longrightarrow> 0 < binary64 x"
proof -
  assume x: "0 < x"
  have "x / 2 ^ 53 < x" using x by (simp add: field_simps)
  moreover have "x - x / 2 ^ 53 \<le> binary64 x"
    using binary64_close [OF x] unfolding abs_le_iff by linarith
  ultimately show ?thesis by linarith
qed

lemma completion_percentage_facts:
  assumes "0 \<le> c" "c \<le> t" "0 < t"
  shows "0 \<le> completion_percentage c t \<and> completion_percentage c t \<le> 100
       \<and> \<bar>completion_percentage c t - of_int c / of_int t * 100\<bar> \<le> 1 / 2 ^ 45"
proof -
  define X :: rat where "X = of_int c / of_int t"
  have X: "0 \<le> X" "X \<le> 1" using assms by (simp_all add: X_def)
  define q1 where "q1 = binary64 X"
  have cp: "completion_percentage c t = binary64 (q1 * 100)"
    by (simp add: completion_percentage_def float_mul_def float_div_def q1_def X_def)
  show ?thesis
  proof (cases "X = 0")
    case True
    then have "q1 = 0" by (simp add: q1_def binary64_def)
    then have z: "completion_percentage c t = 0" by (simp add: cp binary64_def)
    have e0: "(of_int c / of_int t * 100 :: rat) = 0" using True by (simp only: X_def [symmetric])
    show ?thesis unfolding z e0 by simp
  next
    case False
    with X have Xp: "0 < X" by simp
    have q1p: "0 < q1" unfolding q1_def using Xp by (rule binary64_pos)
    have q1le: "q1 \<le> 1"
      using binary64_le_int [of X 1] Xp X by (simp add: q1_def)
    have c1: "\<bar>q1 - X\<bar> \<le> 1 / 2 ^ 53"
    proof -
      have "\<bar>q1 - X\<bar> \<le> X / 2 ^ 53" unfolding q1_def using Xp by (rule binary64_close)
      also have "\<dots> \<le> 1 / 2 ^ 53" using X by (simp add: divide_right_mono)
      finally show ?thesis .
    qed
    have p: "0 < q1 * 100" using q1p by simp
    have le: "q1 * 100 \<le> of_int 100" using q1le by simp
    have r1: "0 \<le> completion_percentage c t"
      unfolding cp using p by (intro binary64_nonneg) simp
    have r2: "completion_percentage c t \<le> 100"
      unfolding cp using binary64_le_int [OF p le] by simp
    have c2: "\<bar>binary64 (q1 * 100) - q1 * 100\<bar> \<le> 100 / 2 ^ 53"
    proof -
      have "\<bar>binary64 (q1 * 100) - q1 * 100\<bar> \<le> q1 * 100 / 2 ^ 53" using p by (rule binary64_close)
      also have "\<dots> \<le> 100 / 2 ^ 53" using q1le by (simp add: divide_right_mono)
      finally show ?thesis .
    qed
    have c3: "\<bar>q1 * 100 - X * 100\<bar> \<le> 100 / 2 ^ 53"
    proof -
      have "q1 * 100 - X * 100 = (q1 - X) * 100" by (simp add: algebra_simps)
      then have "\<bar>q1 * 100 - X * 100\<bar> = \<bar>q1 - X\<bar> * 100" by (simp only: abs_mult)
      also have "\<dots> \<le> (1 / 2 ^ 53) * 100" using c1 by (intro mult_right_mono) auto
      finally show ?thesis by simp
    qed
    have "\<bar>binary64 (q1 * 100) - X * 100\<bar> \<le> 100 / 2 ^ 53 + 100 / 2 ^ 53"
      using c2 c3 unfolding abs_le_iff by linarith
    also have "\<dots> \<le> (1::rat) / 2 ^ 45" by simp
    finally have r3: "\<bar>completion_percentage c t - of_int c / of_int t * 100\<bar> \<le> 1 / 2 ^ 45"
      by (simp add: cp X_def)
    from r1 r2 r3 show ?thesis by blast
  qed
qed


lemma float_round_nonneg: "0 \<le> x \<Longrightarrow> 0 \<le> float_round 1 x"
proof -
  assume "0 \<le> x"
  then have "of_int 0 \<le> x * 10" by simp
  then have "0 \<le> round_half_even (x * 10)"
    using round_half_even_range [of 0 "x * 10" "\<lceil>x * 10\<rceil>"] by simp
  then have "0 \<le> py_round 1 x" by (simp add: py_round_def)
  then show ?thesis unfolding float_round_def by (rule binary64_nonneg)
qed

lemma float_round_1_facts:
  assumes "0 \<le> x" "x \<le> 100"
  shows "0 \<le> float_round 1 x \<and> float_round 1 x \<le> 100
       \<and> \<bar>float_round 1 x - x\<bar> \<le> 1 / 20 + 1 / 2 ^ 46"
proof -
  define r where "r = py_round 1 x"
  have r: "0 \<le> r" "r \<le> 100" using py_round_1_range [OF assms] by (simp_all add: r_def)
  have c: "\<bar>r - x\<bar> \<le> 1 / 20" unfolding r_def by (rule py_round_1_close)
  show ?thesis
  proof (cases "r = 0")
    case True
    have "float_round 1 x = binary64 r" by (simp only: float_round_def r_def)
    then have z: "float_round 1 x = 0" using True by (simp add: binary64_def)
    from c True have "\<bar>0 - x\<bar> \<le> 1 / 20" by simp
    then have "\<bar>0 - x\<bar> \<le> 1 / 20 + 1 / 2 ^ 46" by simp
    then show ?thesis unfolding z by simp
  next
    case False
    with r have rp: "0 < r" by simp
    have le: "r \<le> of_int 100" using r by simp
    have b1: "0 \<le> binary64 r" using r(1) by (rule binary64_nonneg)
    have b2: "binary64 r \<le> 100" using binary64_le_int [OF rp le] by simp
    have "\<bar>binary64 r - r\<bar> \<le> r / 2 ^ 53" using rp by (rule binary64_close)
    also have "\<dots> \<le> 100 / 2 ^ 53" using r by (simp add: divide_right_mono)
    also have "\<dots> \<le> (1::rat) / 2 ^ 46" by simp
    finally have b3: "\<bar>binary64 r - r\<bar> \<le> 1 / 2 ^ 46" .
    from b3 c have "\<bar>binary64 r - x\<bar> \<le> 1 / 20 + 1 / 2 ^ 46" unfolding abs_le_iff by linarith
    moreover have "float_round 1 x = binary64 r" by (simp only: float_round_def r_def)
    ultimately show ?thesis using b1 b2 by simp
  qed
qed

lemma float_round_default_values:
  "float_round (Suc 0) (float_div 120 60) = 2"
  "float_round (Suc 0) (float_div 90 60) = 3 / 2"
  "float_round (Suc 0) (float_div 60 60) = 1"
  "float_round (Suc 0) (float_div 45 60) = binary64 (4 / 5)"
  "float_round (Suc 0) (float_div 30 60) = 1 / 2"
  by code_simp+

subsection \<open>Weighted sums\<close>

lemma sum_list_weighted_upper:
  "\<forall>t \<in> set ts. 0 \<le> completion_count t \<and> avg_duration t \<le> M \<Longrightarrow>
   sum_list (map (\<lambda>t. avg_duration t * of_int (completion_count t)) ts)
     \<le> M * of_int (total_weight ts)"
  unfolding total_weight_def
  by (induction ts) (auto simp: algebra_simps mult_right_mono intro!: add_mono)

lemma sum_list_weighted_lower:
  "\<forall>t \<in> set ts. 0 \<le> completion_count t \<and> m \<le> avg_duration t \<Longrightarrow>
   m * of_int (total_weight ts)
     \<le> sum_list (map (\<lambda>t. avg_duration t * of_int (completion_count t)) ts)"
  unfolding total_weight_def
  by (induction ts) (auto simp: algebra_simps mult_right_mono intro!: add_mono)

lemma total_weight_pos:
  assumes ne: "ts \<noteq> []" and pos: "\<forall>t \<in> set ts. 0 < completion_count t"
  shows "0 < total_weight ts"
proof -
  have nonneg: "0 \<le> sum_list (map completion_count us)"
    if "\<forall>t \<in> set us. 0 < completion_count t" for us :: "similar_task list"
    using that by (induction us) auto
  from ne obtain t us where ts: "ts = t # us" by (cases ts) auto
  with pos have "0 < completion_count t" "0 \<le> sum_list (map completion_count us)"
    using nonneg [of us] by auto
  then show ?thesis by (simp add: total_weight_def ts)
qed

lemma weighted_avg_in_range:
  assumes "ts \<noteq> []" and "\<forall>t \<in> set ts. 0 < completion_count t"
  shows "Min (avg_duration ` set ts) \<le> weighted_avg ts
       \<and> weighted_avg ts \<le> Max (avg_duration ` set ts)"
proof -
  let ?W = "total_weight ts"
  let ?S = "sum_list (map (\<lambda>t. avg_duration t * of_int (completion_count t)) ts)"
  have W: "0 < ?W" using assms by (rule total_weight_pos)
  then have Wr: "(0::rat) < of_int ?W" by simp
  have wa: "weighted_avg ts = ?S / of_int ?W" using W by (simp add: weighted_avg_def)
  have lo: "Min (avg_duration ` set ts) * of_int ?W \<le> ?S"
    using assms by (intro sum_list_weighted_lower) (auto simp: less_imp_le)
  have hi: "?S \<le> Max (avg_duration ` set ts) * of_int ?W"
    using assms by (intro sum_list_weighted_upper) (auto simp: less_imp_le)
  from lo hi Wr show ?thesis
    unfolding wa by (simp add: pos_le_divide_eq pos_divide_le_eq)
qed

subsection \<open>The repository's predictor\<close>

lemma predict_has_no_predicted_duration:
  "subscript (predict_task_duration db n d c) ''predicted_duration'' = Inl KeyError"
  by (auto simp: predict_task_duration_def predict_try_def subscript_def
           split: sum.splits option.splits)

lemma subscript_error: "subscript d k = Inl e \<Longrightarrow> e = KeyError"
  by (auto simp: subscript_def split: option.splits)

lemma schedule_loop_repository_predictor:
  "schedule_loop (predict_task_duration db) ph i ct sch (t # rest) = Inl KeyError"
  by (auto simp: predict_has_no_predicted_duration Let_def split: sum.splits dest: subscript_error)


lemma lookup_unknown_category:
  "\<not> truthy category_id \<or> execute_category_query db category_id = Inr None
     \<or> execute_category_query db category_id = Inr (Some [])
   \<Longrightarrow> lookup_category_name db category_id = Inr (Some ''other'')"
  by (auto simp: lookup_category_name_def)

subsection \<open>The properties of a schedule tell schedules apart\<close>

lemma no_overlap_examples:
  "no_overlap [entry (9 * us_hour) 60, entry (10 * us_hour + 10 * us_minute) 30]"
  "\<not> no_overlap [entry (9 * us_hour) 60, entry (9 * us_hour + 30 * us_minute) 30]"
  by code_simp+

lemma gaps_after_breaks_examples:
  "gaps_after_breaks [entry (9 * us_hour) 60, entry (10 * us_hour + 10 * us_minute) 30]"
  "\<not> gaps_after_breaks [entry (9 * us_hour) 60, entry (10 * us_hour + 5 * us_minute) 30]"
  by code_simp+

lemma breaks_from_previous_examples:
  "breaks_from_previous default_productive_hours []
     [entry (9 * us_hour) 60, entry (10 * us_hour + 10 * us_minute) 30]"
  "\<not> breaks_from_previous default_productive_hours []
     [entry (9 * us_hour) 60, entry (10 * us_hour + 5 * us_minute) 30]"
  by code_simp+

section \<open>Results\<close>

subsection \<open>The schedule builder\<close>

text \<open>
  C1. When the duration estimator fails for one task of the batch, \<open>create_smart_schedule\<close>
  should place that task with the default one-hour estimate and still return placements for
  the other tasks, and no exception leaves \<open>create_smart_schedule\<close>. The estimator does fall
  back to one hour, but the schedule that comes back is empty: here the average query raises
  for the first of two tasks.
\<close>

theorem failing_estimator_empties_the_batch:
  "predict_task_duration testing_db (PStr ''A'') PNone (PInt 1)
     = [(''duration'', PFloat 1), (''confidence'', PFloat 50), (''method'', PStr ''Default Estimate'')]
   \<and> create_smart_schedule \<lparr>analytics = Some (history 0 0), db_connector = testing_db\<rparr> 0
       [[(''name'', PStr ''A''), (''category_id'', PInt 1)],
        [(''name'', PStr ''B''), (''category_id'', PInt 3)]]
     = []"
  by code_simp

text \<open>
  C2. For every non-empty list of tasks \<open>create_smart_schedule\<close> returns the empty list: the
  first iteration raises \<open>KeyError\<close> (the loop reads \<open>prediction['predicted_duration']\<close>, the
  estimator answers under \<open>'duration'\<close>), and the handler of the batch returns \<open>[]\<close>.
\<close>

theorem create_smart_schedule_returns_empty:
  assumes "tasks \<noteq> []"
  shows "create_smart_schedule self now tasks = []
       \<and> (analytics self \<noteq> None \<longrightarrow> create_smart_schedule_try self now tasks = Inl KeyError)"
proof -
  from assms obtain t rest where "tasks = t # rest" by (cases tasks) auto
  then show ?thesis
    by (auto simp: create_smart_schedule_def create_smart_schedule_try_def
          schedule_loop_repository_predictor simp del: schedule_loop.simps split: option.splits)
qed

theorem create_smart_schedule_returns_empty_witness:
  "[[(''name'', PStr ''Write tests''), (''category_id'', PInt 3)]] \<noteq> []
   \<and> analytics \<lparr>analytics = Some (history 1 3), db_connector = testing_db\<rparr> \<noteq> None
   \<and> create_smart_schedule \<lparr>analytics = Some (history 1 3), db_connector = testing_db\<rparr> 0
        [[(''name'', PStr ''Write tests''), (''category_id'', PInt 3)]] = []
   \<and> create_smart_schedule_try \<lparr>analytics = Some (history 1 3), db_connector = testing_db\<rparr> 0
        [[(''name'', PStr ''Write tests''), (''category_id'', PInt 3)]] = Inl KeyError"
  using create_smart_schedule_returns_empty
    [of "[[(''name'', PStr ''Write tests''), (''category_id'', PInt 3)]]"
        "\<lparr>analytics = Some (history 1 3), db_connector = testing_db\<rparr>" 0]
  by simp

text \<open>
  C3. With productive hours \<open>[9, 14]\<close>, the clock at 08:00 and two tasks each estimated at
  60 minutes, the schedule should hold the first task from 09:00 to 10:00 and the second
  at 14:00. Called at 08:00 with two such tasks, \<open>create_smart_schedule\<close> estimates each at
  one hour (the default of \<open>other\<close>, answered in hours under \<open>'duration'\<close>) and returns the
  empty schedule. The productive hours are the default list in every call.
\<close>

theorem two_tasks_at_eight_are_not_placed:
  "subscript (predict_task_duration testing_db (PStr ''task1'') PNone PNone) ''duration''
     = Inr (PFloat 1)
   \<and> subscript (predict_task_duration testing_db (PStr ''task2'') PNone PNone) ''duration''
     = Inr (PFloat 1)
   \<and> create_smart_schedule \<lparr>analytics = Some (history 0 0), db_connector = testing_db\<rparr>
       (8 * us_hour) [named_task ''task1'', named_task ''task2'']
     = []"
  by code_simp



subsection \<open>The duration estimate\<close>

text \<open>
  C6. The confidence label of the suggestion is \<open>high\<close> exactly when at least three similar
  completed tasks were found, \<open>medium\<close> exactly when one or two were, and \<open>low\<close> exactly
  when none was.
\<close>

theorem confidence_level_by_count:
  assumes "similar_tasks_query q = Fetched sims"
  shows "(confidence_level (get_smart_scheduling_suggestion q category_id) = ''high''
            \<longleftrightarrow> 3 \<le> length sims)
       \<and> (confidence_level (get_smart_scheduling_suggestion q category_id) = ''medium''
            \<longleftrightarrow> 1 \<le> length sims \<and> length sims \<le> 2)
       \<and> (confidence_level (get_smart_scheduling_suggestion q category_id) = ''low''
            \<longleftrightarrow> length sims = 0)"
  using assms
  by (cases sims)
     (auto simp: get_smart_scheduling_suggestion_def add_recommended_breaks_def Let_def)

theorem confidence_level_by_count_witness:
  "similar_tasks_query (found [similar 30 1, similar 60 3, similar 45 2])
     = Fetched [similar 30 1, similar 60 3, similar 45 2]
   \<and> confidence_level
        (get_smart_scheduling_suggestion (found [similar 30 1, similar 60 3, similar 45 2]) None)
       = ''high''
   \<and> confidence_level (get_smart_scheduling_suggestion (found [similar 30 1]) None) = ''medium''
   \<and> confidence_level (get_smart_scheduling_suggestion (found []) None) = ''low''"
  using confidence_level_by_count
          [of "found [similar 30 1, similar 60 3, similar 45 2]"
              "[similar 30 1, similar 60 3, similar 45 2]" None]
        confidence_level_by_count [of "found [similar 30 1]" "[similar 30 1]" None]
        confidence_level_by_count [of "found []" "[]" None]
  by simp

text \<open>
  C7, as amended. For every non-empty list of similar tasks with positive completion
  counts, the weighted average \<open>sum(avg_duration * completion_count) / sum(completion_count)\<close>
  lies between the least and the greatest of the \<open>avg_duration\<close> values; the estimated
  duration returned is that average rounded to two decimals, so it lies between the least
  value minus 0.005 and the greatest plus 0.005.
\<close>

theorem estimated_duration_near_range:
  assumes "similar_tasks_query q = Fetched ts" and "ts \<noteq> []"
    and "\<forall>t \<in> set ts. 0 < completion_count t"
  shows "Min (avg_duration ` set ts) \<le> weighted_avg ts
       \<and> weighted_avg ts \<le> Max (avg_duration ` set ts)
       \<and> estimated_duration (get_smart_scheduling_suggestion q category_id)
           = py_round 2 (weighted_avg ts)
       \<and> Min (avg_duration ` set ts) - 1 / 200
           \<le> estimated_duration (get_smart_scheduling_suggestion q category_id)
       \<and> estimated_duration (get_smart_scheduling_suggestion q category_id)
           \<le> Max (avg_duration ` set ts) + 1 / 200"
proof -
  have e: "estimated_duration (get_smart_scheduling_suggestion q category_id)
             = py_round 2 (weighted_avg ts)"
    using assms(1,2)
    by (simp add: get_smart_scheduling_suggestion_def add_recommended_breaks_def Let_def)
  have c: "\<bar>py_round 2 (weighted_avg ts) - weighted_avg ts\<bar> \<le> 1 / 200"
    using py_round_close [of 2 "weighted_avg ts"] by simp
  from c have lo: "weighted_avg ts - 1 / 200 \<le> py_round 2 (weighted_avg ts)"
    and hi: "py_round 2 (weighted_avg ts) \<le> weighted_avg ts + 1 / 200"
    unfolding abs_le_iff by linarith+
  from weighted_avg_in_range [OF assms(2,3)]
  have "Min (avg_duration ` set ts) \<le> weighted_avg ts"
    and "weighted_avg ts \<le> Max (avg_duration ` set ts)" by blast+
  with lo hi show ?thesis unfolding e by simp
qed

theorem estimated_duration_near_range_witness:
  "similar_tasks_query (found [similar 30 1, similar 60 3]) = Fetched [similar 30 1, similar 60 3]
   \<and> [similar 30 1, similar 60 3] \<noteq> []
   \<and> 0 < completion_count (similar 30 1) \<and> 0 < completion_count (similar 60 3)
   \<and> 30 \<le> weighted_avg [similar 30 1, similar 60 3]
   \<and> weighted_avg [similar 30 1, similar 60 3] \<le> 60
   \<and> 30 - 1 / 200
        \<le> estimated_duration
             (get_smart_scheduling_suggestion (found [similar 30 1, similar 60 3]) None)
   \<and> estimated_duration
        (get_smart_scheduling_suggestion (found [similar 30 1, similar 60 3]) None)
        \<le> 60 + 1 / 200"
  using estimated_duration_near_range
          [of "found [similar 30 1, similar 60 3]" "[similar 30 1, similar 60 3]" None]
  by simp

text \<open>
  The claim as stated keeps the estimate between the least and the greatest average. One
  similar task with average 33.3333 and three sessions gives the estimate 33.33, below
  the least average; with average 80.375 it gives 80.38, above the greatest.
\<close>

theorem estimate_leaves_range_counterexample:
  "estimated_duration
     (get_smart_scheduling_suggestion (found [similar (333333 / 10000) 3]) None) = 3333 / 100
   \<and> estimated_duration
       (get_smart_scheduling_suggestion (found [similar (333333 / 10000) 3]) None)
       < Min (avg_duration ` set [similar (333333 / 10000) 3])
   \<and> estimated_duration
       (get_smart_scheduling_suggestion (found [similar (80375 / 1000) 3]) None) = 8038 / 100
   \<and> Max (avg_duration ` set [similar (80375 / 1000) 3])
       < estimated_duration
           (get_smart_scheduling_suggestion (found [similar (80375 / 1000) 3]) None)"
proof -
  have a: "estimated_duration
     (get_smart_scheduling_suggestion (found [similar (333333 / 10000) 3]) None) = 3333 / 100"
    and b: "estimated_duration
       (get_smart_scheduling_suggestion (found [similar (80375 / 1000) 3]) None) = 8038 / 100"
    by code_simp+
  show ?thesis unfolding a b by simp
qed

text \<open>
  C8, as amended. When the average query returns and gives no average for the category,
  and the lookup of the category's name returns a name, \<open>predict_task_duration\<close> returns the
  fixed default of that name converted to hours and rounded to one decimal (coding 2.0,
  design 1.5, planning 1.0, testing 0.8, documentation 1.0, meeting 0.5, other 1.0; the
  float 0.8 is \<open>binary64 (4 / 5)\<close>), with confidence 70.0; a name that is not in the table counts as \<open>other\<close>, and so does a
  category id that is empty or has no row.
\<close>

theorem predict_default_in_hours:
  assumes "execute_average_query db category_id = Inr result"
    and "first_average result = None"
    and "lookup_category_name db category_id = Inr (Some name)"
  shows "subscript (predict_task_duration db tname description category_id) ''duration'' =
           Inr (PFloat (if lower name = ''coding'' then 2
                        else if lower name = ''design'' then 3 / 2
                        else if lower name = ''planning'' then 1
                        else if lower name = ''testing'' then binary64 (4 / 5)
                        else if lower name = ''documentation'' then 1
                        else if lower name = ''meeting'' then 1 / 2
                        else 1))
       \<and> subscript (predict_task_duration db tname description category_id) ''confidence'' =
           Inr (PFloat 70)
       \<and> (\<not> truthy category_id \<or> execute_category_query db category_id = Inr None
            \<or> execute_category_query db category_id = Inr (Some [])
          \<longrightarrow> name = ''other'')"
proof -
  have "name = ''other''"
    if "\<not> truthy category_id \<or> execute_category_query db category_id = Inr None
          \<or> execute_category_query db category_id = Inr (Some [])"
    using lookup_unknown_category [OF that] assms(3) by simp
  moreover have "subscript (predict_task_duration db tname description category_id) ''duration'' =
           Inr (PFloat (if lower name = ''coding'' then 2
                        else if lower name = ''design'' then 3 / 2
                        else if lower name = ''planning'' then 1
                        else if lower name = ''testing'' then binary64 (4 / 5)
                        else if lower name = ''documentation'' then 1
                        else if lower name = ''meeting'' then 1 / 2
                        else 1))"
    using assms
    by (simp add: predict_task_duration_def predict_try_def default_durations_def
          subscript_def float_round_default_values)
  moreover have "subscript (predict_task_duration db tname description category_id) ''confidence'' =
           Inr (PFloat 70)"
    using assms
    by (simp add: predict_task_duration_def predict_try_def subscript_def)
  ultimately show ?thesis by blast
qed

theorem predict_default_in_hours_witness:
  "execute_average_query testing_db (PInt 3) = Inr (Some [None])
   \<and> first_average (Some [None]) = None
   \<and> lookup_category_name testing_db (PInt 3) = Inr (Some ''testing'')
   \<and> subscript (predict_task_duration testing_db (PStr ''Write tests'') (PStr []) (PInt 3))
       ''duration'' = Inr (PFloat (binary64 (4 / 5)))
   \<and> subscript (predict_task_duration testing_db (PStr ''Write tests'') (PStr []) (PInt 3))
       ''confidence'' = Inr (PFloat 70)
   \<and> execute_category_query testing_db (PInt 99) = Inr (Some [])
   \<and> lookup_category_name testing_db (PInt 99) = Inr (Some ''other'')
   \<and> subscript (predict_task_duration testing_db (PStr ''Write tests'') (PStr []) (PInt 99))
       ''duration'' = Inr (PFloat 1)
   \<and> subscript (predict_task_duration testing_db (PStr ''Write tests'') (PStr []) (PInt 99))
       ''confidence'' = Inr (PFloat 70)"
proof -
  have a: "execute_average_query testing_db c = Inr (Some [None])" if "c \<noteq> PInt 1" for c
    using that by simp
  have f: "first_average (Some [None]) = None" by (simp add: first_average_def)
  have l3: "lookup_category_name testing_db (PInt 3) = Inr (Some ''testing'')"
    and l99: "lookup_category_name testing_db (PInt 99) = Inr (Some ''other'')"
    by (simp_all add: lookup_category_name_def)
  have lw: "lower ''testing'' = ''testing''" "lower ''other'' = ''other''" by code_simp+
  from predict_default_in_hours [OF a f l3, of "PStr ''Write tests''" "PStr []"]
       predict_default_in_hours [OF a f l99, of "PStr ''Write tests''" "PStr []"]
       f l3 l99 lw
  show ?thesis by simp
qed

text \<open>
  The claim as stated gives 45 minutes with confidence \<open>low\<close> for a testing task without
  history. \<open>predict_task_duration\<close> gives 0.8 (hours) with confidence 70.0, and
  \<open>get_smart_scheduling_suggestion\<close> gives the label \<open>low\<close> with a duration of 0.
\<close>

theorem testing_default_counterexample:
  "subscript (predict_task_duration testing_db (PStr ''Write tests'') (PStr []) (PInt 3))
     ''duration'' = Inr (PFloat (binary64 (4 / 5)))
   \<and> subscript (predict_task_duration testing_db (PStr ''Write tests'') (PStr []) (PInt 3))
     ''confidence'' = Inr (PFloat 70)
   \<and> binary64 (4 / 5) = 3602879701896397 / 4503599627370496
   \<and> PFloat (binary64 (4 / 5)) \<noteq> PInt 45 \<and> PFloat (binary64 (4 / 5)) \<noteq> PFloat 45
   \<and> PFloat 70 \<noteq> PStr ''low''
   \<and> estimated_duration (get_smart_scheduling_suggestion (found []) (Some 3)) = 0
   \<and> confidence_level (get_smart_scheduling_suggestion (found []) (Some 3)) = ''low''"
  by code_simp

subsection \<open>Insights and breaks\<close>

text \<open>
  C9, as amended. With \<open>completed\<close> of \<open>total\<close> tasks completed, the completion rate of
  \<open>get_productivity_insights\<close> lies in \<open>[0, 100]\<close> and is 0 when \<open>total\<close> is 0. When
  \<open>total > 0\<close> and the two queries before the completion query did not fail, it is
  \<open>(completed / total) * 100\<close> computed in floating point and rounded to one decimal; it
  need not equal \<open>completed / total * 100\<close>, and is within \<open>0.05 + 2^-44\<close> of it.
  \<open>get_task_completion_rate\<close> returns the unrounded float, within \<open>2^-45\<close> of the quotient
  and in \<open>[0, 100]\<close>, and 0 when \<open>total\<close> is 0.
\<close>

theorem completion_rate_in_range:
  assumes "completion_query q = Fetched (Some (c, t))" and "0 \<le> c" and "c \<le> t"
  shows "0 \<le> completion_rate (get_productivity_insights q)
       \<and> completion_rate (get_productivity_insights q) \<le> 100
       \<and> (t = 0 \<longrightarrow> completion_rate (get_productivity_insights q) = 0)
       \<and> (0 < t \<and> time_analysis_query q \<noteq> MySQLError \<and> avg_session_query q \<noteq> MySQLError \<longrightarrow>
            completion_rate (get_productivity_insights q)
              = float_round 1 (float_mul (float_div c t) 100)
            \<and> \<bar>completion_rate (get_productivity_insights q) - of_int c / of_int t * 100\<bar>
                \<le> 1 / 20 + 1 / 2 ^ 44)
       \<and> 0 \<le> get_task_completion_rate (completion_query q)
       \<and> get_task_completion_rate (completion_query q) \<le> 100
       \<and> (t = 0 \<longrightarrow> get_task_completion_rate (completion_query q) = 0)
       \<and> (0 < t \<longrightarrow>
            \<bar>get_task_completion_rate (completion_query q) - of_int c / of_int t * 100\<bar>
              \<le> 1 / 2 ^ 45)"
proof -
  have cp: "completion_percentage c t = float_mul (float_div c t) 100"
    by (simp add: completion_percentage_def)
  have f: "0 \<le> completion_percentage c t \<and> completion_percentage c t \<le> 100
           \<and> \<bar>completion_percentage c t - of_int c / of_int t * 100\<bar> \<le> 1 / 2 ^ 45"
    if "0 < t"
    using assms(2,3) that by (rule completion_percentage_facts)
  have r: "0 \<le> float_round 1 (completion_percentage c t)
           \<and> float_round 1 (completion_percentage c t) \<le> 100
           \<and> \<bar>float_round 1 (completion_percentage c t) - completion_percentage c t\<bar>
               \<le> 1 / 20 + 1 / 2 ^ 46"
    if "0 < t"
    using f [OF that] by (intro float_round_1_facts) auto
  have cl: "\<bar>float_round 1 (completion_percentage c t) - of_int c / of_int t * 100\<bar>
              \<le> 1 / 20 + 1 / 2 ^ 44"
    if "0 < t"
  proof -
    have "(1::rat) / 2 ^ 46 + 1 / 2 ^ 45 \<le> 1 / 2 ^ 44" by simp
    with f [OF that] r [OF that] show ?thesis unfolding abs_le_iff by linarith
  qed
  have m: "min 100 (completion_percentage c t) = completion_percentage c t" if "0 < t"
    using f [OF that] by simp
  have insights:
    "0 \<le> completion_rate (get_productivity_insights q)
     \<and> completion_rate (get_productivity_insights q) \<le> 100
     \<and> (t = 0 \<longrightarrow> completion_rate (get_productivity_insights q) = 0)
     \<and> (0 < t \<and> time_analysis_query q \<noteq> MySQLError \<and> avg_session_query q \<noteq> MySQLError \<longrightarrow>
          completion_rate (get_productivity_insights q)
            = float_round 1 (completion_percentage c t))"
    using assms(1) r
    by (auto simp: get_productivity_insights_def Let_def split: fetched.splits option.splits)
  have rate:
    "get_task_completion_rate (completion_query q)
       = (if 0 < t then completion_percentage c t else 0)"
    using assms(1) m by (simp add: get_task_completion_rate_def)
  from insights rate f cl show ?thesis unfolding cp [symmetric] by (cases "0 < t") auto
qed

theorem completion_rate_in_range_witness:
  "completion_query (history 1 3) = Fetched (Some (1, 3)) \<and> (0::int) \<le> 1 \<and> (1::int) \<le> 3
   \<and> time_analysis_query (history 1 3) \<noteq> MySQLError
   \<and> avg_session_query (history 1 3) \<noteq> MySQLError
   \<and> 0 \<le> completion_rate (get_productivity_insights (history 1 3))
   \<and> completion_rate (get_productivity_insights (history 1 3)) \<le> 100
   \<and> completion_rate (get_productivity_insights (history 1 3))
       = float_round 1 (float_mul (float_div 1 3) 100)
   \<and> \<bar>float_round 1 (float_mul (float_div 1 3) 100) - 1 / 3 * 100\<bar> \<le> 1 / 20 + 1 / 2 ^ 44
   \<and> \<bar>get_task_completion_rate (completion_query (history 1 3)) - 1 / 3 * 100\<bar> \<le> 1 / 2 ^ 45
   \<and> completion_query (history 0 0) = Fetched (Some (0, 0))
   \<and> completion_rate (get_productivity_insights (history 0 0)) = 0
   \<and> get_task_completion_rate (completion_query (history 0 0)) = 0"
proof -
  have v: "float_round (Suc 0) (float_mul (float_div 1 3) 100)
             = 2343279181116211 / 70368744177664"
    by code_simp
  from completion_rate_in_range [of "history 1 3" 1 3]
       completion_rate_in_range [of "history 0 0" 0 0]
  show ?thesis by (simp add: v)
qed

text \<open>
  The claim as stated makes the rate equal to \<open>completed / total * 100\<close>. With one task of
  three completed the insights hold the float 33.3, which is not 100/3; with 23 of 80 they
  hold the float 28.7, where the quotient is 28.75.
\<close>

theorem completion_rate_exact_counterexample:
  "completion_rate (get_productivity_insights (history 1 3)) = binary64 (333 / 10)
   \<and> binary64 (333 / 10) \<noteq> 1 / 3 * 100
   \<and> completion_rate (get_productivity_insights (history 23 80)) = binary64 (287 / 10)
   \<and> binary64 (287 / 10) \<noteq> 23 / 80 * 100"
  by code_simp

text \<open>
  C10. For every sum \<open>s\<close> of the minutes logged in the trailing four hours, \<open>suggest_break\<close>
  returns an extended break of 30 minutes when \<open>s > 240\<close>, a short break of 15 minutes when
  \<open>120 < s \<le> 240\<close>, a micro break of 5 minutes when \<open>60 < s \<le> 120\<close>, and no suggestion
  otherwise; 250 minutes give the extended break and 50 minutes give none, as does a
  window without logs.
\<close>

theorem suggest_break_ladder:
  "map_option (\<lambda>b. (break_type b, break_duration b)) (suggest_break (Fetched (Some s))) =
     (if s > 240 then Some (''extended_break'', 30)
      else if s > 120 then Some (''short_break'', 15)
      else if s > 60 then Some (''micro_break'', 5)
      else None)
   \<and> map_option (\<lambda>b. (break_type b, break_duration b)) (suggest_break (Fetched (Some 250)))
       = Some (''extended_break'', 30)
   \<and> suggest_break (Fetched (Some 50)) = None
   \<and> suggest_break (Fetched None) = None"
  by (simp add: suggest_break_def)


end
